theory Spec2Isabelle
  imports Main "HOL-Library.Sublist"
begin

text \<open>
  A verification development for the Fastify storage plugin: the registration function
  \<^verbatim>\<open>plugin\<close>, its two factories \<^verbatim>\<open>createPrefixedStorage\<close> and
  \<^verbatim>\<open>createSnapshotedStorage\<close>, and the \<^verbatim>\<open>onClose\<close> hook it registers.
\<close>

section \<open>Exceptions, observed calls and sequencing\<close>

text \<open>
  The plugin is a thin layer over two collaborators, the storage engine and the host
  framework. A JavaScript exception (a \<^verbatim>\<open>throw\<close> or a rejected promise that is
  awaited) is a value of type \<open>error\<close>; a call that may raise returns \<open>error + 'a\<close>,
  with \<open>Inl\<close> for the exception, together with the world it leaves behind, since a call
  may have changed the world before it raises.

  Every call the shutdown hook makes is recorded as an \<open>event\<close>, the way a test spy
  would record it. Awaited calls are run to completion one after the other: other tasks
  that the event loop could interleave at an \<^verbatim>\<open>await\<close> are outside the model.
\<close>

datatype error = JsError string

datatype event =
    CloseCallback
  | Unwatch
  | GetMounts string
  | Unmount string bool
  | Dispose

text \<open>\<open>invoke ev f\<close> performs the external call \<open>f\<close> and records it as \<open>ev\<close>.\<close>

definition invoke ::
  "event \<Rightarrow> ('w \<Rightarrow> (error + 'a) \<times> 'w) \<Rightarrow> 'w \<Rightarrow> (error + 'a) \<times> event list \<times> 'w" where
  "invoke ev f w = (case f w of (r, w') \<Rightarrow> (r, [ev], w'))"

text \<open>Statement sequencing: an exception of the first statement skips the rest.\<close>

definition and_then ::
  "('w \<Rightarrow> (error + 'a) \<times> event list \<times> 'w) \<Rightarrow>
   ('a \<Rightarrow> 'w \<Rightarrow> (error + 'b) \<times> event list \<times> 'w) \<Rightarrow>
   'w \<Rightarrow> (error + 'b) \<times> event list \<times> 'w" where
  "and_then m k w =
     (case m w of
        (Inl e, evs, w') \<Rightarrow> (Inl e, evs, w')
      | (Inr a, evs, w') \<Rightarrow> (case k a w' of (r, evs', w'') \<Rightarrow> (r, evs @ evs', w'')))"

text \<open>
  \<^verbatim>\<open>try { body } finally { fin }\<close>: the finaliser runs whatever the body did. When the
  finaliser raises, its exception is the one that leaves the statement; otherwise the
  body's own completion (normal or exceptional) does.
\<close>

definition try_finally ::
  "('w \<Rightarrow> (error + 'a) \<times> event list \<times> 'w) \<Rightarrow>
   ('w \<Rightarrow> (error + unit) \<times> event list \<times> 'w) \<Rightarrow>
   'w \<Rightarrow> (error + 'a) \<times> event list \<times> 'w" where
  "try_finally body fin w =
     (case body w of (r, evs, w1) \<Rightarrow>
        (case fin w1 of
           (Inl e, evs', w2) \<Rightarrow> (Inl e, evs @ evs', w2)
         | (Inr _, evs', w2) \<Rightarrow> (r, evs @ evs', w2)))"

section \<open>The shutdown hook\<close>

text \<open>
  The methods of the storage instance that the hook calls belong to the engine, which
  is not part of the repository. They are parameters of the model: arbitrary calls on
  a world \<open>'w\<close>, each free to succeed or to raise. A mount is the engine's
  \<^verbatim>\<open>{ driver, base }\<close>.
\<close>

record 'd mount =
  driver :: 'd
  base :: string

record ('w, 'd) storage_methods =
  unwatch :: "'w \<Rightarrow> (error + unit) \<times> 'w"
  getMounts :: "string \<Rightarrow> 'w \<Rightarrow> (error + 'd mount list) \<times> 'w"
  unmount :: "string \<Rightarrow> bool \<Rightarrow> 'w \<Rightarrow> (error + unit) \<times> 'w"
  dispose :: "'w \<Rightarrow> (error + unit) \<times> 'w"

text \<open>
  \<^verbatim>\<open>for (const { base } of mounts) { await storage.unmount(base, true); }\<close>
  over the array that was enumerated before the loop.
\<close>

fun unmount_each ::
  "('w, 'd) storage_methods \<Rightarrow> 'd mount list \<Rightarrow> 'w \<Rightarrow> (error + unit) \<times> event list \<times> 'w" where
  "unmount_each storage [] w = (Inr (), [], w)"
| "unmount_each storage (m # ms) w =
     and_then (invoke (Unmount (base m) True) (unmount storage (base m) True))
       (\<lambda>_. unmount_each storage ms) w"

text \<open>The body of the \<^verbatim>\<open>finally\<close> block.\<close>

definition cleanup ::
  "('w, 'd) storage_methods \<Rightarrow> 'w \<Rightarrow> (error + unit) \<times> event list \<times> 'w" where
  "cleanup storage =
     and_then (invoke Unwatch (unwatch storage)) (\<lambda>_.
     and_then (invoke (GetMounts '''') (getMounts storage '''')) (\<lambda>mounts.
     and_then (unmount_each storage mounts) (\<lambda>_.
     invoke Dispose (dispose storage))))"

text \<open>\<^verbatim>\<open>await opts.close?.()\<close>: nothing is called when the option is absent.\<close>

definition call_close ::
  "('w \<Rightarrow> (error + unit) \<times> 'w) option \<Rightarrow> 'w \<Rightarrow> (error + unit) \<times> event list \<times> 'w" where
  "call_close c w =
     (case c of None \<Rightarrow> (Inr (), [], w) | Some cb \<Rightarrow> invoke CloseCallback cb w)"

text \<open>The function registered for \<^verbatim>\<open>onClose\<close>.\<close>

definition onClose_hook ::
  "('w, 'd) storage_methods \<Rightarrow> ('w \<Rightarrow> (error + unit) \<times> 'w) option \<Rightarrow>
   'w \<Rightarrow> (error + unit) \<times> event list \<times> 'w" where
  "onClose_hook storage c = try_finally (call_close c) (cleanup storage)"

subsection \<open>The order the hook is expected to follow\<close>

text \<open>
  The calls a run made, and the sequence of calls a complete run makes: the close
  callback when there is one, then \<^verbatim>\<open>unwatch\<close>, the enumeration of the mounts at the
  root base, one forced \<^verbatim>\<open>unmount\<close> for each enumerated mount, and \<^verbatim>\<open>dispose\<close>.
\<close>

definition calls :: "(error + 'a) \<times> event list \<times> 'w \<Rightarrow> event list" where
  "calls x = fst (snd x)"

definition unmount_events :: "'d mount list \<Rightarrow> event list" where
  "unmount_events ms = map (\<lambda>m. Unmount (base m) True) ms"

definition cleanup_sequence :: "'d mount list \<Rightarrow> event list" where
  "cleanup_sequence ms = [Unwatch, GetMounts ''''] @ unmount_events ms @ [Dispose]"

definition close_events :: "'c option \<Rightarrow> event list" where
  "close_events c = (case c of None \<Rightarrow> [] | Some _ \<Rightarrow> [CloseCallback])"

text \<open>The world in which the cleanup starts: the one the close callback left.\<close>

definition after_close :: "('w \<Rightarrow> (error + unit) \<times> 'w) option \<Rightarrow> 'w \<Rightarrow> 'w" where
  "after_close c w = (case c of None \<Rightarrow> w | Some cb \<Rightarrow> snd (cb w))"

text \<open>
  The mounts that \<^verbatim>\<open>storage.getMounts('')\<close> returns in a cleanup that starts in
  world \<open>w\<close>; none when the cleanup does not get that far.
\<close>

definition enumerated :: "('w, 'd) storage_methods \<Rightarrow> 'w \<Rightarrow> 'd mount list" where
  "enumerated storage w =
     (case unwatch storage w of
        (Inl _, _) \<Rightarrow> []
      | (Inr _, w1) \<Rightarrow>
          (case getMounts storage '''' w1 of (Inl _, _) \<Rightarrow> [] | (Inr ms, _) \<Rightarrow> ms))"

text \<open>
  What ``no cleanup step raises'' means for the loop, said of the engine alone: the
  engine's forced unmounts of the mounts \<open>ms\<close>, one after the other from world \<open>w\<close>,
  leave the world \<open>w'\<close> when each of them succeeds (\<open>Some w'\<close>), and \<open>None\<close> when one
  of them raises.
\<close>

fun unmounted :: "('w, 'd) storage_methods \<Rightarrow> 'd mount list \<Rightarrow> 'w \<Rightarrow> 'w option" where
  "unmounted storage [] w = Some w"
| "unmounted storage (m # ms) w =
     (case unmount storage (base m) True w of
        (Inl _, _) \<Rightarrow> None
      | (Inr _, w') \<Rightarrow> unmounted storage ms w')"

text \<open>How the close callback completed; normally when there is none.\<close>

definition close_outcome ::
  "('w \<Rightarrow> (error + unit) \<times> 'w) option \<Rightarrow> 'w \<Rightarrow> error + unit" where
  "close_outcome c w = (case c of None \<Rightarrow> Inr () | Some cb \<Rightarrow> fst (cb w))"

subsection \<open>A concrete engine for the examples\<close>

text \<open>
  The world is the list of mounted bases. Unmounting \<^verbatim>\<open>cache:\<close> fails, as it does
  when the driver mounted there rejects in its own \<^verbatim>\<open>dispose\<close>.
\<close>

definition demo_storage :: "(string list, string) storage_methods" where
  "demo_storage =
     \<lparr> unwatch = (\<lambda>w. (Inr (), w)),
       getMounts = (\<lambda>b w.
          (Inr (map (\<lambda>x. \<lparr>driver = ''memory'', base = x\<rparr>) (filter (prefix b) w)), w)),
       unmount = (\<lambda>b force w.
          if b = ''cache:'' then (Inl (JsError ''driver dispose failed''), w)
          else (Inr (), removeAll b w)),
       dispose = (\<lambda>w. (Inr (), [])) \<rparr>"

definition failing_close :: "string list \<Rightarrow> (error + unit) \<times> string list" where
  "failing_close w = (Inl (JsError ''close failed''), w)"

section \<open>The storage engine\<close>

text \<open>
  The item operations, \<^verbatim>\<open>prefixStorage\<close>, \<^verbatim>\<open>snapshot\<close> and
  \<^verbatim>\<open>restoreSnapshot\<close> are imported from the external storage library and are not
  part of the repository; they are modelled from what the spec says of them.

  A storage instance has an identity (\<open>ref\<close>); the heap gives the items of every
  instance. A handle is an instance or a prefix view of a handle. The operations are
  total: a driver that rejects a read or a write, and any rewriting of keys that the
  library may apply, are outside this model.
\<close>

type_synonym key = string

type_synonym ref = nat

type_synonym 'v items = "key \<rightharpoonup> 'v"

type_synonym 'v heap = "ref \<Rightarrow> 'v items"

type_synonym 'v snapshot = "key \<rightharpoonup> 'v"

datatype handle = Base ref | Prefixed handle string

text \<open>
  Modelled from the spec: the engine's \<^verbatim>\<open>getItem\<close> is missing. A storage instance
  is a handle for key-value operations, and a prefix view prepends its fixed string to
  every key before delegating to the underlying handle. A key without a value reads as
  \<open>None\<close> (JavaScript's \<^verbatim>\<open>null\<close>).
\<close>

fun getItem :: "handle \<Rightarrow> key \<Rightarrow> 'v heap \<Rightarrow> 'v option" where
  "getItem (Base s) k h = h s k"
| "getItem (Prefixed st p) k h = getItem st (p @ k) h"

text \<open>
  Modelled from the spec: the engine's \<^verbatim>\<open>setItem\<close> is missing; the same delegation
  for a write.
\<close>

fun setItem :: "handle \<Rightarrow> key \<Rightarrow> 'v \<Rightarrow> 'v heap \<Rightarrow> 'v heap" where
  "setItem (Base s) k v h = h(s := (h s)(k \<mapsto> v))"
| "setItem (Prefixed st p) k v h = setItem st (p @ k) v h"

text \<open>
  Modelled from the spec: the engine's \<^verbatim>\<open>removeItem\<close> is missing; the same
  delegation for a removal.
\<close>

fun removeItem :: "handle \<Rightarrow> key \<Rightarrow> 'v heap \<Rightarrow> 'v heap" where
  "removeItem (Base s) k h = h(s := (h s)(k := None))"
| "removeItem (Prefixed st p) k h = removeItem st (p @ k) h"

text \<open>
  Modelled from the spec: the engine's \<^verbatim>\<open>prefixStorage\<close> is missing. It returns a
  derived handle that transparently prepends a fixed string to every key before
  delegating to the underlying storage.
\<close>

definition prefixStorage :: "handle \<Rightarrow> string \<Rightarrow> handle" where
  "prefixStorage storage p = Prefixed storage p"

text \<open>
  Modelled from the spec: the engine's \<^verbatim>\<open>snapshot\<close> is missing. A snapshot is a
  capture of all key/value pairs under a base path at a point in time: it holds the
  pair \<open>(r, v)\<close> for every key \<open>b @ r\<close> that has the value \<open>v\<close>.
\<close>

definition snapshot :: "handle \<Rightarrow> string \<Rightarrow> 'v heap \<Rightarrow> 'v snapshot" where
  "snapshot storage b h = (\<lambda>r. getItem storage (b @ r) h)"

text \<open>
  Modelled from the spec: the engine's \<^verbatim>\<open>restoreSnapshot\<close> is missing. A snapshot
  is restorable into a target base: every captured pair \<open>(r, v)\<close> is written at key
  \<open>b @ r\<close>, and a key the snapshot has no pair for keeps what it holds. The target base
  is optional; the repository's test restores a snapshot of the root with the base
  omitted, so an omitted base is the root.
\<close>

fun restore_into :: "handle \<Rightarrow> 'v snapshot \<Rightarrow> string \<Rightarrow> 'v heap \<Rightarrow> 'v heap" where
  "restore_into (Base s) snap b h =
     h(s := (\<lambda>k. if prefix b k
                  then (case snap (drop (length b) k) of None \<Rightarrow> h s k | Some v \<Rightarrow> Some v)
                  else h s k))"
| "restore_into (Prefixed st p) snap b h = restore_into st snap (p @ b) h"

definition restoreSnapshot ::
  "handle \<Rightarrow> 'v snapshot \<Rightarrow> string option \<Rightarrow> 'v heap \<Rightarrow> 'v heap" where
  "restoreSnapshot storage snap b h =
     restore_into storage snap (case b of None \<Rightarrow> '''' | Some b' \<Rightarrow> b') h"

section \<open>The host and its world\<close>

text \<open>
  A JavaScript function value has an identity of its own: the two factories below
  return closures, and a closure is its identity together with the storage handle it
  captured. What a property of the server or of a request can hold is a \<open>jsvalue\<close>;
  a decoration is either such a value or \<^verbatim>\<open>{ getter: () => value }\<close>, whose getter
  is run at every read. The registered hook is the closure over \<^verbatim>\<open>storage\<close> and
  \<^verbatim>\<open>opts\<close> (of which it uses \<^verbatim>\<open>close\<close>).
\<close>

datatype prefixed_fn = PrefixedFn ref handle

datatype snapshoted_fn = SnapshotedFn ref handle

datatype jsvalue =
    VStorage handle
  | VPrefix prefixed_fn
  | VSnapshot snapshoted_fn

datatype decoration = Getter jsvalue | Plain jsvalue

datatype 'c hook = ShutdownHook handle "'c option"

record 'c FastifyStorageOptions =
  close :: "'c option"

text \<open>
  The host framework is not part of the repository. The world is what the plugin acts
  on: the identities handed out so far, the items of the storage instances, the
  decorations of the server and of the request, and the registered hooks.
\<close>

record ('v, 'c) world =
  nextRef :: ref
  storages :: "'v heap"
  decorators :: "string \<rightharpoonup> decoration"
  requestDecorators :: "string \<rightharpoonup> decoration"
  hooks :: "(string \<times> 'c hook) list"

text \<open>
  Modelled from the spec: the host's \<^verbatim>\<open>decorate\<close> is missing. The decoration
  mechanism accepts named capability attachments on the server object.
\<close>

definition decorate :: "string \<Rightarrow> decoration \<Rightarrow> ('v, 'c) world \<Rightarrow> ('v, 'c) world" where
  "decorate name d w = w\<lparr>decorators := (decorators w)(name \<mapsto> d)\<rparr>"

text \<open>
  Modelled from the spec: the host's \<^verbatim>\<open>decorateRequest\<close> is missing. The decoration
  mechanism accepts named capability attachments on the request object.
\<close>

definition decorateRequest :: "string \<Rightarrow> decoration \<Rightarrow> ('v, 'c) world \<Rightarrow> ('v, 'c) world" where
  "decorateRequest name d w = w\<lparr>requestDecorators := (requestDecorators w)(name \<mapsto> d)\<rparr>"

text \<open>
  Modelled from the spec: the host's \<^verbatim>\<open>addHook\<close> is missing. The lifecycle-hook
  mechanism accepts a callback to run on shutdown.
\<close>

definition addHook :: "string \<Rightarrow> 'c hook \<Rightarrow> ('v, 'c) world \<Rightarrow> ('v, 'c) world" where
  "addHook name f w = w\<lparr>hooks := hooks w @ [(name, f)]\<rparr>"

text \<open>
  Reading a property: a getter is run, a plain value is returned. Every request object
  is created from the decorated request, so the read does not depend on the request.
\<close>

fun read_decoration :: "decoration \<Rightarrow> jsvalue" where
  "read_decoration (Getter v) = v"
| "read_decoration (Plain v) = v"

definition server_get :: "('v, 'c) world \<Rightarrow> string \<Rightarrow> jsvalue option" where
  "server_get w name = map_option read_decoration (decorators w name)"

definition request_get :: "('v, 'c) world \<Rightarrow> 'r \<Rightarrow> string \<Rightarrow> jsvalue option" where
  "request_get w req name = map_option read_decoration (requestDecorators w name)"

section \<open>The plugin\<close>

text \<open>
  \<^verbatim>\<open>createStorage(opts)\<close> belongs to the engine. The parameter \<open>engine\<close> says, for
  each configuration, which exception the creation raises or which items the created
  instance starts with; a created instance gets a fresh identity.
\<close>

definition createStorage ::
  "('o \<Rightarrow> error + 'v items) \<Rightarrow> 'o \<Rightarrow> ('v, 'c) world \<Rightarrow> (error + handle) \<times> ('v, 'c) world" where
  "createStorage engine opts w =
     (case engine opts of
        Inl e \<Rightarrow> (Inl e, w)
      | Inr init \<Rightarrow>
          (Inr (Base (nextRef w)),
           w\<lparr>nextRef := Suc (nextRef w), storages := (storages w)(nextRef w := init)\<rparr>))"

text \<open>
  \<^verbatim>\<open>createPrefixedStorage(storage)\<close> returns a new closure; calling the closure
  with a prefix returns \<^verbatim>\<open>prefixStorage(storage, prefix)\<close>.
\<close>

definition createPrefixedStorage ::
  "handle \<Rightarrow> ('v, 'c) world \<Rightarrow> prefixed_fn \<times> ('v, 'c) world" where
  "createPrefixedStorage storage w =
     (PrefixedFn (nextRef w) storage, w\<lparr>nextRef := Suc (nextRef w)\<rparr>)"

fun call_prefixed :: "prefixed_fn \<Rightarrow> string \<Rightarrow> handle" where
  "call_prefixed (PrefixedFn i storage) p = prefixStorage storage p"

text \<open>
  \<^verbatim>\<open>createSnapshotedStorage(storage)\<close> returns a new closure \<^verbatim>\<open>fn\<close> with
  \<^verbatim>\<open>fn(base) = snapshot(storage, base)\<close> and
  \<^verbatim>\<open>fn.restore(snapshot, base) = restoreSnapshot(storage, snapshot, base)\<close>, where
  \<^verbatim>\<open>base\<close> may be omitted in the second.
\<close>

definition createSnapshotedStorage ::
  "handle \<Rightarrow> ('v, 'c) world \<Rightarrow> snapshoted_fn \<times> ('v, 'c) world" where
  "createSnapshotedStorage storage w =
     (SnapshotedFn (nextRef w) storage, w\<lparr>nextRef := Suc (nextRef w)\<rparr>)"

fun call_snapshoted :: "snapshoted_fn \<Rightarrow> string \<Rightarrow> 'v heap \<Rightarrow> 'v snapshot" where
  "call_snapshoted (SnapshotedFn i storage) b h = snapshot storage b h"

fun restore :: "snapshoted_fn \<Rightarrow> 'v snapshot \<Rightarrow> string option \<Rightarrow> 'v heap \<Rightarrow> 'v heap" where
  "restore (SnapshotedFn i storage) snap b h = restoreSnapshot storage snap b h"

text \<open>
  The registration function. The result \<open>Inl e\<close> is an exception thrown by the function
  itself; \<open>Inr ()\<close> is the return after \<^verbatim>\<open>done()\<close> was called.
\<close>

definition plugin ::
  "(('c, 'z) FastifyStorageOptions_scheme \<Rightarrow> error + 'v items) \<Rightarrow>
   ('c, 'z) FastifyStorageOptions_scheme \<Rightarrow> ('v, 'c) world \<Rightarrow> (error + unit) \<times> ('v, 'c) world" where
  "plugin engine opts fastify =
     (case createStorage engine opts fastify of
        (Inl e, w) \<Rightarrow> (Inl e, w)
      | (Inr storage, w0) \<Rightarrow>
          (let w1 = decorate ''storage'' (Getter (VStorage storage)) w0;
               w2 = decorateRequest ''storage'' (Getter (VStorage storage)) w1;
               (storagePrefix, w3) = createPrefixedStorage storage w2;
               w4 = decorate ''storagePrefix'' (Plain (VPrefix storagePrefix)) w3;
               w5 = decorateRequest ''storagePrefix'' (Plain (VPrefix storagePrefix)) w4;
               (storageSnapshot, w6) = createSnapshotedStorage storage w5;
               w7 = decorate ''storageSnapshot'' (Plain (VSnapshot storageSnapshot)) w6;
               w8 = decorateRequest ''storageSnapshot'' (Plain (VSnapshot storageSnapshot)) w7;
               w9 = addHook ''onClose'' (ShutdownHook storage (close opts)) w8
           in (Inr (), w9)))"

text \<open>
  The hook value \<open>ShutdownHook storage c\<close> stands for the function above, applied to the
  engine's methods of the captured instance and to the captured callback.
\<close>

fun run_hook ::
  "(handle \<Rightarrow> ('w, 'd) storage_methods) \<Rightarrow> ('w \<Rightarrow> (error + unit) \<times> 'w) hook \<Rightarrow>
   'w \<Rightarrow> (error + unit) \<times> event list \<times> 'w" where
  "run_hook methods (ShutdownHook storage c) = onClose_hook (methods storage) c"

subsection \<open>A concrete host and configuration for the examples\<close>

definition empty_world :: "(string, unit) world" where
  "empty_world =
     \<lparr> nextRef = 0, storages = (\<lambda>_. Map.empty), decorators = Map.empty,
       requestDecorators = Map.empty, hooks = [] \<rparr>"

record 'c demo_options = "'c FastifyStorageOptions" +
  driverName :: string

definition demo_engine :: "unit demo_options \<Rightarrow> error + string items" where
  "demo_engine opts =
     (if driverName opts = ''memory'' then Inr Map.empty
      else Inl (JsError ''invalid driver''))"

definition memory_options :: "unit demo_options" where
  "memory_options = \<lparr> close = None, driverName = ''memory'' \<rparr>"

definition broken_options :: "unit demo_options" where
  "broken_options = \<lparr> close = None, driverName = ''no such driver'' \<rparr>"

section \<open>Properties of the prefix and snapshot capabilities\<close>

lemma getItem_setItem_same: "getItem st k (setItem st k v h) = Some v"
  by (induction st arbitrary: k) simp_all

lemma getItem_restore_into:
  "getItem st k (restore_into st snap b h) =
     (if prefix b k
      then (case snap (drop (length b) k) of None \<Rightarrow> getItem st k h | Some v \<Rightarrow> Some v)
      else getItem st k h)"
  by (induction st arbitrary: k b) (simp_all split: option.splits)

text \<open>
  C3. A write of value \<open>v\<close> under key \<open>k\<close> through the view that \<^verbatim>\<open>storagePrefix(p)\<close>
  returns is the write of \<open>v\<close> at key \<open>p @ k\<close> through the underlying handle, and \<open>v\<close>
  is then read through the underlying handle at \<open>p @ k\<close>: the key is the plain
  concatenation of prefix and key.
\<close>

theorem prefixed_write_is_base_write_at_concatenation:
  "setItem (call_prefixed (fst (createPrefixedStorage storage w)) p) k v h =
     setItem storage (p @ k) v h \<and>
   getItem storage (p @ k)
     (setItem (call_prefixed (fst (createPrefixedStorage storage w)) p) k v h) = Some v"
  by (simp add: createPrefixedStorage_def prefixStorage_def getItem_setItem_same)

text \<open>
  C10. The view that \<^verbatim>\<open>storagePrefix('')\<close> returns behaves as the underlying handle
  does: writes, removals and reads through it are those of the underlying handle at the
  same key, so that a write through either is read through the other at the unmodified
  key.
\<close>

theorem empty_prefix_view_is_base:
  "setItem (call_prefixed (fst (createPrefixedStorage storage w)) '''') k v h =
     setItem storage k v h \<and>
   removeItem (call_prefixed (fst (createPrefixedStorage storage w)) '''') k h =
     removeItem storage k h \<and>
   getItem (call_prefixed (fst (createPrefixedStorage storage w)) '''') k h =
     getItem storage k h \<and>
   getItem storage k
     (setItem (call_prefixed (fst (createPrefixedStorage storage w)) '''') k v h) = Some v \<and>
   getItem (call_prefixed (fst (createPrefixedStorage storage w)) '''') k
     (setItem storage k v h) = Some v"
  by (simp add: createPrefixedStorage_def prefixStorage_def getItem_setItem_same)

text \<open>
  C2, as the code has it. Let the key \<open>b @ r\<close> under base \<open>b\<close> hold the value \<open>v0\<close>
  when the snapshot is taken. After a snapshot of \<open>b\<close>
  through \<^verbatim>\<open>storageSnapshot(b)\<close>, a mutation of that key through the storage handle
  (a write of any value \<open>v1\<close>, or a removal) and the restoration of the snapshot into
  \<open>b\<close> through \<^verbatim>\<open>storageSnapshot.restore\<close>, a read of the key returns \<open>v0\<close> again.
\<close>

theorem snapshot_restore_roundtrip:
  assumes "getItem storage (b @ r) h = Some v0"
  shows "getItem storage (b @ r)
           (restore (fst (createSnapshotedStorage storage w))
              (call_snapshoted (fst (createSnapshotedStorage storage w)) b h) (Some b)
              (setItem storage (b @ r) v1 h)) = Some v0 \<and>
         getItem storage (b @ r)
           (restore (fst (createSnapshotedStorage storage w))
              (call_snapshoted (fst (createSnapshotedStorage storage w)) b h) (Some b)
              (removeItem storage (b @ r) h)) = Some v0"
  using assms
  by (simp add: createSnapshotedStorage_def restoreSnapshot_def snapshot_def getItem_restore_into)

text \<open>
  The scenario of the repository's test: \<^verbatim>\<open>foo\<close> holds \<^verbatim>\<open>original\<close>, the root base is
  captured, \<^verbatim>\<open>foo\<close> is set to \<^verbatim>\<open>changed\<close>, and the snapshot is restored.
\<close>

theorem snapshot_restore_roundtrip_witness:
  "getItem (Base 0) ('''' @ ''foo'') ((\<lambda>_. Map.empty)(0 := [''foo'' \<mapsto> ''original''])) =
     Some ''original'' \<and>
   getItem (Base 0) ('''' @ ''foo'')
     (restore (fst (createSnapshotedStorage (Base 0) empty_world))
        (call_snapshoted (fst (createSnapshotedStorage (Base 0) empty_world)) ''''
           ((\<lambda>_. Map.empty)(0 := [''foo'' \<mapsto> ''original''])))
        (Some '''')
        (setItem (Base 0) ('''' @ ''foo'') ''changed''
           ((\<lambda>_. Map.empty)(0 := [''foo'' \<mapsto> ''original''])))) = Some ''original''"
proof -
  have h: "getItem (Base 0) ('''' @ ''foo'')
             ((\<lambda>_. Map.empty)(0 := [''foo'' \<mapsto> ''original''])) = Some ''original''"
    by simp
  from h snapshot_restore_roundtrip [OF h, of empty_world "''changed''"]
  show ?thesis by blast
qed

text \<open>
  C2, as stated, fails for a key under the base that has no value when the snapshot is
  taken: the snapshot holds no pair for it, so restoring leaves the value the mutation
  wrote. The storage is empty, the root base is captured, \<^verbatim>\<open>foo\<close> is set to
  \<^verbatim>\<open>changed\<close> and the snapshot is restored: the read returns \<^verbatim>\<open>changed\<close>, not the
  absence that was read before the mutation.
\<close>

theorem absent_key_keeps_mutation_counterexample:
  "getItem (Base 0) ('''' @ ''foo'') ((\<lambda>_. Map.empty) :: string heap) = None \<and>
   getItem (Base 0) ('''' @ ''foo'')
     (restore (fst (createSnapshotedStorage (Base 0) empty_world))
        (call_snapshoted (fst (createSnapshotedStorage (Base 0) empty_world)) ''''
           ((\<lambda>_. Map.empty) :: string heap))
        (Some '''')
        (setItem (Base 0) ('''' @ ''foo'') ''changed'' (\<lambda>_. Map.empty))) = Some ''changed''"
  by (simp add: createSnapshotedStorage_def restoreSnapshot_def snapshot_def)

text \<open>
  C9. \<^verbatim>\<open>storageSnapshot.restore(snapshot)\<close> with the base omitted hands the omitted
  base unchanged to the engine's \<^verbatim>\<open>restoreSnapshot\<close>, has the effect of restoring
  with the empty base path, and makes every captured pair readable at its own key in
  the root.
\<close>

theorem restore_without_base_restores_into_root:
  "restore (fst (createSnapshotedStorage storage w)) snap None h =
     restoreSnapshot storage snap None h \<and>
   restore (fst (createSnapshotedStorage storage w)) snap None h =
     restore (fst (createSnapshotedStorage storage w)) snap (Some '''') h \<and>
   (snap r = Some v \<longrightarrow>
      getItem storage r (restore (fst (createSnapshotedStorage storage w)) snap None h) = Some v)"
  by (simp add: createSnapshotedStorage_def restoreSnapshot_def getItem_restore_into)

theorem restore_without_base_restores_into_root_witness:
  "[''foo'' \<mapsto> ''original''] ''foo'' = Some ''original'' \<and>
   getItem (Base 0) ''foo''
     (restore (fst (createSnapshotedStorage (Base 0) empty_world)) [''foo'' \<mapsto> ''original''] None
        ((\<lambda>_. Map.empty)(0 := [''foo'' \<mapsto> ''changed'']))) = Some ''original''"
proof -
  have s: "[''foo'' \<mapsto> ''original''] ''foo'' = Some ''original''" by simp
  from s restore_without_base_restores_into_root
    [of "Base 0" empty_world "[''foo'' \<mapsto> ''original'']"
        "(\<lambda>_. Map.empty)(0 := [''foo'' \<mapsto> ''changed''])" "''foo''" "''original''"]
  show ?thesis by blast
qed

section \<open>Properties of the registration\<close>

text \<open>
  C1. After a registration that succeeded, the server and every request expose
  \<^verbatim>\<open>storage\<close>, \<^verbatim>\<open>storagePrefix\<close> and \<^verbatim>\<open>storageSnapshot\<close>, and each name
  reads as the same object in both places: the one storage instance created by this
  registration (its identity was unused before), and the one prefix closure and the one
  snapshot closure, both over that instance.
\<close>

theorem capabilities_shared_by_server_and_requests:
  assumes "fst (plugin engine opts w) = Inr ()"
  shows "server_get (snd (plugin engine opts w)) ''storage'' =
           Some (VStorage (Base (nextRef w))) \<and>
         request_get (snd (plugin engine opts w)) req ''storage'' =
           Some (VStorage (Base (nextRef w))) \<and>
         server_get (snd (plugin engine opts w)) ''storagePrefix'' =
           Some (VPrefix (PrefixedFn (Suc (nextRef w)) (Base (nextRef w)))) \<and>
         request_get (snd (plugin engine opts w)) req ''storagePrefix'' =
           Some (VPrefix (PrefixedFn (Suc (nextRef w)) (Base (nextRef w)))) \<and>
         server_get (snd (plugin engine opts w)) ''storageSnapshot'' =
           Some (VSnapshot (SnapshotedFn (Suc (Suc (nextRef w))) (Base (nextRef w)))) \<and>
         request_get (snd (plugin engine opts w)) req ''storageSnapshot'' =
           Some (VSnapshot (SnapshotedFn (Suc (Suc (nextRef w))) (Base (nextRef w))))"
proof (cases "engine opts")
  case (Inl e)
  with assms show ?thesis by (simp add: plugin_def createStorage_def)
next
  case (Inr init)
  then show ?thesis
    by (simp add: plugin_def createStorage_def createPrefixedStorage_def
        createSnapshotedStorage_def decorate_def decorateRequest_def addHook_def
        server_get_def request_get_def)
qed

theorem capabilities_shared_by_server_and_requests_witness:
  "fst (plugin demo_engine memory_options empty_world) = Inr () \<and>
   server_get (snd (plugin demo_engine memory_options empty_world)) ''storage'' =
     Some (VStorage (Base 0)) \<and>
   request_get (snd (plugin demo_engine memory_options empty_world)) (7::nat) ''storage'' =
     Some (VStorage (Base 0)) \<and>
   server_get (snd (plugin demo_engine memory_options empty_world)) ''storagePrefix'' =
     Some (VPrefix (PrefixedFn 1 (Base 0))) \<and>
   request_get (snd (plugin demo_engine memory_options empty_world)) (7::nat) ''storagePrefix'' =
     Some (VPrefix (PrefixedFn 1 (Base 0))) \<and>
   server_get (snd (plugin demo_engine memory_options empty_world)) ''storageSnapshot'' =
     Some (VSnapshot (SnapshotedFn 2 (Base 0))) \<and>
   request_get (snd (plugin demo_engine memory_options empty_world)) (7::nat) ''storageSnapshot'' =
     Some (VSnapshot (SnapshotedFn 2 (Base 0)))"
proof -
  have ok: "fst (plugin demo_engine memory_options empty_world) = Inr ()"
    by (simp add: plugin_def createStorage_def demo_engine_def memory_options_def Let_def
        createPrefixedStorage_def createSnapshotedStorage_def)
  have n: "nextRef empty_world = 0" by (simp add: empty_world_def)
  from ok capabilities_shared_by_server_and_requests [OF ok, of "7::nat"]
  show ?thesis by (simp add: n)
qed

text \<open>
  C6. When the engine's instance creation raises for the given configuration, the
  registration function raises that same exception itself, before anything is attached
  and before any hook is registered (the world is untouched). The registration raises
  an exception exactly when the engine's instance creation raised it.
\<close>

theorem registration_fails_with_engine_error:
  "(engine opts = Inl e \<longrightarrow> plugin engine opts w = (Inl e, w)) \<and>
   ((fst (plugin engine opts w) = Inl e) = (engine opts = Inl e))"
  by (cases "engine opts")
     (simp_all add: plugin_def createStorage_def createPrefixedStorage_def
        createSnapshotedStorage_def Let_def)

theorem registration_fails_with_engine_error_witness:
  "demo_engine broken_options = Inl (JsError ''invalid driver'') \<and>
   plugin demo_engine broken_options empty_world = (Inl (JsError ''invalid driver''), empty_world)"
proof -
  have bad: "demo_engine broken_options = Inl (JsError ''invalid driver'')"
    by (simp add: demo_engine_def broken_options_def)
  from bad registration_fails_with_engine_error
    [of demo_engine broken_options "JsError ''invalid driver''" empty_world]
  show ?thesis by blast
qed

text \<open>
  C7. A registration that succeeds changes the host in exactly this way: the three names
  \<^verbatim>\<open>storage\<close>, \<^verbatim>\<open>storagePrefix\<close> and \<^verbatim>\<open>storageSnapshot\<close> are attached to the
  server, the same three to the request, and one \<^verbatim>\<open>onClose\<close> hook is appended to the
  hooks. Every other decoration and hook is as before. Besides the host, the storage
  instance and the two closures are new objects.
\<close>

theorem registration_frame:
  assumes "engine opts = Inr init"
  shows "plugin engine opts w =
    (Inr (),
     w\<lparr> nextRef := nextRef w + 3,
        storages := (storages w)(nextRef w := init),
        decorators := (decorators w)
          (''storage'' \<mapsto> Getter (VStorage (Base (nextRef w))),
           ''storagePrefix'' \<mapsto> Plain (VPrefix (PrefixedFn (Suc (nextRef w)) (Base (nextRef w)))),
           ''storageSnapshot'' \<mapsto>
              Plain (VSnapshot (SnapshotedFn (Suc (Suc (nextRef w))) (Base (nextRef w))))),
        requestDecorators := (requestDecorators w)
          (''storage'' \<mapsto> Getter (VStorage (Base (nextRef w))),
           ''storagePrefix'' \<mapsto> Plain (VPrefix (PrefixedFn (Suc (nextRef w)) (Base (nextRef w)))),
           ''storageSnapshot'' \<mapsto>
              Plain (VSnapshot (SnapshotedFn (Suc (Suc (nextRef w))) (Base (nextRef w))))),
        hooks := hooks w @ [(''onClose'', ShutdownHook (Base (nextRef w)) (close opts))] \<rparr>)"
  using assms
  by (simp add: plugin_def createStorage_def createPrefixedStorage_def
      createSnapshotedStorage_def decorate_def decorateRequest_def addHook_def)

theorem registration_frame_witness:
  "demo_engine memory_options = Inr Map.empty \<and>
   hooks (snd (plugin demo_engine memory_options empty_world)) =
     [(''onClose'', ShutdownHook (Base 0) None)] \<and>
   dom (decorators (snd (plugin demo_engine memory_options empty_world))) =
     {''storage'', ''storagePrefix'', ''storageSnapshot''} \<and>
   dom (requestDecorators (snd (plugin demo_engine memory_options empty_world))) =
     {''storage'', ''storagePrefix'', ''storageSnapshot''}"
proof -
  have ok: "demo_engine memory_options = Inr Map.empty"
    by (simp add: demo_engine_def memory_options_def)
  have c: "close memory_options = None" by (simp add: memory_options_def)
  from ok registration_frame
    [where engine = demo_engine and opts = memory_options and init = Map.empty
       and w = empty_world]
  show ?thesis by (auto simp add: empty_world_def c)
qed

section \<open>Properties of the shutdown hook\<close>

text \<open>
  The loop makes its calls in the order of the enumeration and stops at the first
  exception; when it raises nothing it has unmounted every enumerated mount.
\<close>

lemma unmount_each_calls:
  "prefix (calls (unmount_each storage ms w)) (unmount_events ms) \<and>
   (fst (unmount_each storage ms w) = Inr () \<longrightarrow>
      calls (unmount_each storage ms w) = unmount_events ms)"
proof (induction ms arbitrary: w)
  case Nil
  show ?case by (simp add: calls_def unmount_events_def)
next
  case (Cons m ms)
  obtain r w1 where u: "unmount storage (base m) True w = (r, w1)"
    by (cases "unmount storage (base m) True w")
  show ?case
  proof (cases r)
    case (Inl e)
    with u show ?thesis
      by (simp add: calls_def unmount_events_def and_then_def invoke_def)
  next
    case (Inr a)
    obtain r2 evs2 w2 where rest: "unmount_each storage ms w1 = (r2, evs2, w2)"
      by (cases "unmount_each storage ms w1") auto
    from Cons.IH [of w1] rest
    have "prefix evs2 (unmount_events ms)" and "r2 = Inr () \<longrightarrow> evs2 = unmount_events ms"
      by (simp_all add: calls_def)
    with u Inr rest show ?thesis
      by (simp add: calls_def unmount_events_def and_then_def invoke_def)
  qed
qed


lemma cleanup_calls:
  "prefix [Unwatch] (calls (cleanup storage w)) \<and>
   prefix (calls (cleanup storage w)) (cleanup_sequence (enumerated storage w)) \<and>
   (fst (cleanup storage w) = Inr () \<longrightarrow>
      calls (cleanup storage w) = cleanup_sequence (enumerated storage w))"
proof -
  obtain r1 w1 where a: "unwatch storage w = (r1, w1)"
    by (cases "unwatch storage w")
  obtain r2 w2 where b: "getMounts storage '''' w1 = (r2, w2)"
    by (cases "getMounts storage '''' w1")
  show ?thesis
  proof (cases r1)
    case (Inl e)
    with a show ?thesis
      by (simp add: cleanup_def calls_def and_then_def invoke_def cleanup_sequence_def
          enumerated_def)
  next
    case r1: (Inr u)
    show ?thesis
    proof (cases r2)
      case (Inl e)
      with a b r1 show ?thesis
        by (simp add: cleanup_def calls_def and_then_def invoke_def cleanup_sequence_def
            enumerated_def)
    next
      case r2: (Inr ms)
      obtain r3 evs3 w3 where c: "unmount_each storage ms w2 = (r3, evs3, w3)"
        by (cases "unmount_each storage ms w2") auto
      from unmount_each_calls [of storage ms w2] c
      have p: "prefix evs3 (unmount_events ms)"
        and q: "r3 = Inr () \<longrightarrow> evs3 = unmount_events ms"
        by (simp_all add: calls_def)
      obtain r4 w4 where d: "dispose storage w3 = (r4, w4)"
        by (cases "dispose storage w3")
      show ?thesis
      proof (cases r3)
        case (Inl e)
        with a b c r1 r2 p show ?thesis
          by (simp add: cleanup_def calls_def and_then_def invoke_def cleanup_sequence_def
              enumerated_def)
      next
        case (Inr u3)
        with a b c d r1 r2 q show ?thesis
          by (simp add: cleanup_def calls_def and_then_def invoke_def cleanup_sequence_def
              enumerated_def)
      qed
    qed
  qed
qed

lemma calls_onClose_hook:
  "calls (onClose_hook storage c w) =
     close_events c @ calls (cleanup storage (after_close c w))"
  by (simp add: onClose_hook_def try_finally_def call_close_def close_events_def
      after_close_def calls_def invoke_def split: option.splits prod.splits sum.splits)

text \<open>
  When the engine's unmounts all succeed, the loop has called each of them, in order,
  and leaves the world they leave; when no step of the engine raises, the cleanup has
  made every call of the fixed sequence and returns normally.
\<close>

lemma unmount_each_unmounted:
  "unmounted storage ms w = Some w' \<Longrightarrow>
   unmount_each storage ms w = (Inr (), unmount_events ms, w')"
proof (induction ms arbitrary: w)
  case Nil
  then show ?case by (simp add: unmount_events_def)
next
  case (Cons m ms)
  obtain r w1 where u: "unmount storage (base m) True w = (r, w1)"
    by (cases "unmount storage (base m) True w")
  show ?case
  proof (cases r)
    case (Inl e)
    with u Cons.prems show ?thesis by simp
  next
    case (Inr a)
    with u Cons.prems have "unmounted storage ms w1 = Some w'" by simp
    from Cons.IH [OF this] u Inr show ?thesis
      by (simp add: and_then_def invoke_def unmount_events_def)
  qed
qed

lemma cleanup_complete:
  assumes "unwatch storage w = (Inr (), w1)"
    and "getMounts storage '''' w1 = (Inr ms, w2)"
    and "unmounted storage ms w2 = Some w3"
    and "dispose storage w3 = (Inr (), w4)"
  shows "cleanup storage w = (Inr (), cleanup_sequence ms, w4)"
  using assms(1,2,4) unmount_each_unmounted [OF assms(3)]
  by (simp add: cleanup_def and_then_def invoke_def cleanup_sequence_def)

text \<open>
  C5, as the code has it. In every run of the hook the calls begin with the close
  callback, when there is one, followed by \<^verbatim>\<open>unwatch\<close>: the callback has completed,
  with or without an exception, before the first cleanup step. The calls of every run
  are an initial part of the fixed sequence: close callback, \<^verbatim>\<open>unwatch\<close>,
  \<^verbatim>\<open>getMounts('')\<close>, one \<^verbatim>\<open>unmount(base, true)\<close> for each enumerated mount in
  the order of the enumeration, \<^verbatim>\<open>dispose\<close>. When no cleanup step raises
  (\<^verbatim>\<open>unwatch\<close> succeeds, the enumeration returns \<open>ms\<close>, the engine's unmounts of
  \<open>ms\<close> all succeed and \<^verbatim>\<open>dispose\<close> succeeds), the run makes exactly the calls of
  the whole sequence, completes as the close callback did, and leaves the world that
  \<^verbatim>\<open>dispose\<close> left.
\<close>

theorem onClose_hook_order:
  "prefix (close_events c @ [Unwatch]) (calls (onClose_hook storage c w)) \<and>
   prefix (calls (onClose_hook storage c w))
     (close_events c @ cleanup_sequence (enumerated storage (after_close c w))) \<and>
   (unwatch storage (after_close c w) = (Inr (), w1) \<and>
    getMounts storage '''' w1 = (Inr ms, w2) \<and>
    unmounted storage ms w2 = Some w3 \<and>
    dispose storage w3 = (Inr (), w4) \<longrightarrow>
      onClose_hook storage c w =
        (close_outcome c w, close_events c @ cleanup_sequence ms, w4))"
proof -
  have full: "onClose_hook storage c w =
        (close_outcome c w, close_events c @ cleanup_sequence ms, w4)"
    if h: "unwatch storage (after_close c w) = (Inr (), w1)"
      "getMounts storage '''' w1 = (Inr ms, w2)"
      "unmounted storage ms w2 = Some w3"
      "dispose storage w3 = (Inr (), w4)"
  proof -
    from cleanup_complete [OF h]
    have fin: "cleanup storage (after_close c w) = (Inr (), cleanup_sequence ms, w4)" .
    show ?thesis
    proof (cases c)
      case None
      with fin show ?thesis
        by (simp add: onClose_hook_def try_finally_def call_close_def close_events_def
            after_close_def close_outcome_def)
    next
      case (Some cb)
      obtain r w0 where "cb w = (r, w0)" by (cases "cb w")
      with Some fin show ?thesis
        by (simp add: onClose_hook_def try_finally_def call_close_def close_events_def
            after_close_def close_outcome_def invoke_def)
    qed
  qed
  from cleanup_calls [of storage "after_close c w"] full
  show ?thesis by (simp add: calls_onClose_hook)
qed

theorem onClose_hook_order_witness:
  "unwatch demo_storage (after_close (Some failing_close) ['''', ''tmp:'']) =
     (Inr (), ['''', ''tmp:'']) \<and>
   getMounts demo_storage '''' ['''', ''tmp:''] =
     (Inr [\<lparr>driver = ''memory'', base = ''''\<rparr>, \<lparr>driver = ''memory'', base = ''tmp:''\<rparr>],
      ['''', ''tmp:'']) \<and>
   unmounted demo_storage
     [\<lparr>driver = ''memory'', base = ''''\<rparr>, \<lparr>driver = ''memory'', base = ''tmp:''\<rparr>]
     ['''', ''tmp:''] = Some [] \<and>
   dispose demo_storage [] = (Inr (), []) \<and>
   onClose_hook demo_storage (Some failing_close) ['''', ''tmp:''] =
     (Inl (JsError ''close failed''),
      [CloseCallback, Unwatch, GetMounts '''', Unmount '''' True, Unmount ''tmp:'' True, Dispose],
      [])"
proof -
  have a: "unwatch demo_storage (after_close (Some failing_close) ['''', ''tmp:'']) =
     (Inr (), ['''', ''tmp:''])"
    by (simp add: demo_storage_def after_close_def failing_close_def)
  have b: "getMounts demo_storage '''' ['''', ''tmp:''] =
     (Inr [\<lparr>driver = ''memory'', base = ''''\<rparr>, \<lparr>driver = ''memory'', base = ''tmp:''\<rparr>],
      ['''', ''tmp:''])"
    by (simp add: demo_storage_def)
  have c: "unmounted demo_storage
     [\<lparr>driver = ''memory'', base = ''''\<rparr>, \<lparr>driver = ''memory'', base = ''tmp:''\<rparr>]
     ['''', ''tmp:''] = Some []"
    by (simp add: demo_storage_def)
  have d: "dispose demo_storage [] = (Inr (), [])"
    by (simp add: demo_storage_def)
  from a b c d onClose_hook_order
    [where storage = demo_storage and c = "Some failing_close" and w = "['''', ''tmp:'']"
       and ?w1.0 = "['''', ''tmp:'']" and ?w2.0 = "['''', ''tmp:'']" and ?w3.0 = "[]"
       and ?w4.0 = "[]"
       and ms = "[\<lparr>driver = ''memory'', base = ''''\<rparr>, \<lparr>driver = ''memory'', base = ''tmp:''\<rparr>]"]
  show ?thesis
    by (simp add: close_events_def close_outcome_def cleanup_sequence_def unmount_events_def
        failing_close_def)
qed

text \<open>
  C5, as stated, fails when a cleanup step raises: the steps after it do not execute.
  There is no close callback; the mounts are the root, \<^verbatim>\<open>cache:\<close> and \<^verbatim>\<open>tmp:\<close>,
  and the unmount of \<^verbatim>\<open>cache:\<close> raises. The run ends with that unmount:
  \<^verbatim>\<open>tmp:\<close> is not unmounted and \<^verbatim>\<open>dispose\<close> is not called.
\<close>

theorem cleanup_steps_skipped_counterexample:
  "onClose_hook demo_storage None ['''', ''cache:'', ''tmp:''] =
     (Inl (JsError ''driver dispose failed''),
      [Unwatch, GetMounts '''', Unmount '''' True, Unmount ''cache:'' True],
      [''cache:'', ''tmp:''])"
  by (simp add: onClose_hook_def try_finally_def call_close_def cleanup_def and_then_def
      invoke_def demo_storage_def)

text \<open>
  C4, as the code has it. When the close callback raises \<open>e\<close> and no cleanup step
  raises (\<^verbatim>\<open>unwatch\<close> succeeds, the enumeration returns \<open>ms\<close>, the engine's unmounts
  of \<open>ms\<close> all succeed and \<^verbatim>\<open>dispose\<close> succeeds), every cleanup step is executed
  (\<^verbatim>\<open>unwatch\<close>, the enumeration, the forced unmount of every enumerated mount,
  \<^verbatim>\<open>dispose\<close>), the world is the one \<^verbatim>\<open>dispose\<close> left, and the hook then raises
  the callback's own exception \<open>e\<close>.
\<close>

theorem close_error_propagates_after_cleanup:
  assumes "cb w = (Inl e, w1)"
    and "unwatch storage w1 = (Inr (), w2)"
    and "getMounts storage '''' w2 = (Inr ms, w3)"
    and "unmounted storage ms w3 = Some w4"
    and "dispose storage w4 = (Inr (), w5)"
  shows "onClose_hook storage (Some cb) w = (Inl e, CloseCallback # cleanup_sequence ms, w5)"
  using assms(1) cleanup_complete [OF assms(2-5)]
  by (simp add: onClose_hook_def try_finally_def call_close_def invoke_def)

theorem close_error_propagates_after_cleanup_witness:
  "failing_close ['''', ''tmp:''] = (Inl (JsError ''close failed''), ['''', ''tmp:'']) \<and>
   unwatch demo_storage ['''', ''tmp:''] = (Inr (), ['''', ''tmp:'']) \<and>
   getMounts demo_storage '''' ['''', ''tmp:''] =
     (Inr [\<lparr>driver = ''memory'', base = ''''\<rparr>, \<lparr>driver = ''memory'', base = ''tmp:''\<rparr>],
      ['''', ''tmp:'']) \<and>
   unmounted demo_storage
     [\<lparr>driver = ''memory'', base = ''''\<rparr>, \<lparr>driver = ''memory'', base = ''tmp:''\<rparr>]
     ['''', ''tmp:''] = Some [] \<and>
   dispose demo_storage [] = (Inr (), []) \<and>
   onClose_hook demo_storage (Some failing_close) ['''', ''tmp:''] =
     (Inl (JsError ''close failed''),
      [CloseCallback, Unwatch, GetMounts '''', Unmount '''' True, Unmount ''tmp:'' True, Dispose],
      [])"
proof -
  have z: "failing_close ['''', ''tmp:''] = (Inl (JsError ''close failed''), ['''', ''tmp:''])"
    by (simp add: failing_close_def)
  have a: "unwatch demo_storage ['''', ''tmp:''] = (Inr (), ['''', ''tmp:''])"
    by (simp add: demo_storage_def)
  have b: "getMounts demo_storage '''' ['''', ''tmp:''] =
     (Inr [\<lparr>driver = ''memory'', base = ''''\<rparr>, \<lparr>driver = ''memory'', base = ''tmp:''\<rparr>],
      ['''', ''tmp:''])"
    by (simp add: demo_storage_def)
  have c: "unmounted demo_storage
     [\<lparr>driver = ''memory'', base = ''''\<rparr>, \<lparr>driver = ''memory'', base = ''tmp:''\<rparr>]
     ['''', ''tmp:''] = Some []"
    by (simp add: demo_storage_def)
  have d: "dispose demo_storage [] = (Inr (), [])"
    by (simp add: demo_storage_def)
  from z a b c d close_error_propagates_after_cleanup
    [where cb = failing_close and storage = demo_storage, OF z a b c d]
  show ?thesis by (simp add: cleanup_sequence_def unmount_events_def)
qed

text \<open>
  C4, as stated, fails when a cleanup step raises. The close callback raises
  \<^verbatim>\<open>close failed\<close>; the mounts are the root, \<^verbatim>\<open>cache:\<close> and \<^verbatim>\<open>tmp:\<close>, and the
  unmount of \<^verbatim>\<open>cache:\<close> raises. The hook raises the exception of the unmount, not the
  callback's, \<^verbatim>\<open>tmp:\<close> is not unmounted and \<^verbatim>\<open>dispose\<close> is not called.
\<close>

theorem close_error_superseded_counterexample:
  "failing_close ['''', ''cache:'', ''tmp:''] =
     (Inl (JsError ''close failed''), ['''', ''cache:'', ''tmp:'']) \<and>
   onClose_hook demo_storage (Some failing_close) ['''', ''cache:'', ''tmp:''] =
     (Inl (JsError ''driver dispose failed''),
      [CloseCallback, Unwatch, GetMounts '''', Unmount '''' True, Unmount ''cache:'' True],
      [''cache:'', ''tmp:''])"
  by (simp add: onClose_hook_def try_finally_def call_close_def cleanup_def and_then_def
      invoke_def demo_storage_def failing_close_def)



end
